theory Spec2Isabelle
  imports Main "HOL-Library.Sublist"
begin

section \<open>The form builder: data model\<close>

text \<open>
  The program is one class, \<open>FormBuilder\<close>, whose methods mutate two arrays
  (\<open>formFields\<close>, \<open>formResponses\<close>), the browser's \<open>localStorage\<close> and the page.
  The model passes all of that as one record. What the browser supplies from outside is a
  parameter of the operation that asks for it: the clock (\<open>Date.now()\<close>), the answer of
  \<open>confirm\<close> and the answer of \<open>prompt\<close> (\<open>None\<close> is a cancelled prompt).

  Strings are \<open>string\<close>; whitespace and letter case are those of ASCII. A response's
  \<open>responses\<close> object is a JavaScript object: it has the keys the program stored in it
  and a prototype, and a label such as \<open>toString\<close> or \<open>__proto__\<close> reaches the
  prototype. Both are modelled, see the section on objects.

  The methods modelled are those the user reaches after start-up: the two click handlers,
  \<open>isValidLabel\<close>, \<open>addField\<close>, \<open>saveForms\<close>, \<open>editField\<close>, \<open>deleteField\<close>,
  \<open>validateForm\<close>, \<open>submitForm\<close>, \<open>renderForm\<close> and \<open>renderResponses\<close>. The
  TypeScript source and the compiled \<open>script.js\<close> agree on all of them except
  \<open>validateForm\<close>, of which both versions are given. (The script also tests the error
  message element against \<open>null\<close> before clearing it; the element is part of the page.)
\<close>

record FormField =
  id' :: string
  type :: string
  label :: string
  options :: "string list option"
  required :: "bool option"

text \<open>
  \<open>Record<string, any>\<close>: the program stores a string (text, radio) or an array of
  strings (checkbox) under a label.
\<close>

datatype answer = Str string | Arr "string list"

text \<open>
  The object that \<open>submitForm\<close> creates with \<open>{}\<close>: its own properties, and its
  prototype. The prototype is \<open>Object.prototype\<close> unless an assignment to the key
  \<open>__proto__\<close> has put an array in its place.
\<close>

datatype prototype = ObjectPrototype | ArrayObject "string list"

record jsobject =
  own :: "string \<rightharpoonup> answer"
  prototype :: prototype

text \<open>
  What reading a property can give: nothing, a stored answer (or an array installed as
  prototype, or one of its elements), the length of such an array, a built-in function
  (given by its name), or the object \<open>Object.prototype\<close> itself.
\<close>

datatype jsvalue =
    Undefined
  | Answer answer
  | Number nat
  | BuiltinFunction string
  | ObjectPrototypeObject

record FormResponse =
  formId :: string
  responses :: jsobject

text \<open>
  \<open>localStorage\<close> maps a key to the JSON text written under it; the program writes the
  field array under \<open>forms\<close> and the response array under \<open>formResponses\<close>, so a stored
  value is one of the two arrays. \<open>JSON.stringify\<close> writes the own properties of an
  object only: a stored response is its \<open>formId\<close> and its own answers.
\<close>

datatype stored =
    Forms "FormField list"
  | Responses "(string \<times> (string \<rightharpoonup> answer)) list"

text \<open>
  The input controls that \<open>renderForm\<close> puts under \<open>#form\<close>, in document order. A text
  input carries the field's id, its current value and whether it has the class \<open>error\<close>;
  a radio or checkbox input carries the field's id as its \<open>name\<close>, the option as its
  value, and whether it is checked. (The labels and the Edit/Delete buttons of the preview
  are never read back and are left out.)
\<close>

datatype control =
    TextInput string string bool
  | RadioInput string string bool
  | CheckboxInput string string bool

text \<open>
  The response table: the header cells and, per response, the cells of its row. The text
  of a data cell is a string, or the source text that the browser prints for a built-in
  function (which differs between browsers, and is never empty).
\<close>

datatype cell = Text string | NativeCode string

record table =
  headerRow :: "string list"
  dataRows :: "cell list list"

datatype error = TypeError

record FormBuilder =
  formFields :: "FormField list"
  currentFormId :: string
  formResponses :: "FormResponse list"
  localStorage :: "string \<rightharpoonup> stored"
  form :: "control list"
  responseReview :: "table option"
  fieldLabelInput :: string
  fieldTypeSelect :: string
  fieldOptionsInput :: string
  errorMessage :: string
  errorColor :: string

section \<open>Strings\<close>

definition isWhiteSpace :: "char \<Rightarrow> bool" where
  "isWhiteSpace c = (c \<in> set [CHR '' '', CHR 0x09, CHR 0x0A, CHR 0x0B, CHR 0x0C, CHR 0x0D])"

definition trim :: "string \<Rightarrow> string" where
  "trim s = rev (dropWhile isWhiteSpace (rev (dropWhile isWhiteSpace s)))"

definition toLowerChar :: "char \<Rightarrow> char" where
  "toLowerChar c =
     (case map_of (zip ''ABCDEFGHIJKLMNOPQRSTUVWXYZ'' ''abcdefghijklmnopqrstuvwxyz'') c of
        Some l \<Rightarrow> l
      | None \<Rightarrow> c)"

definition toLowerCase :: "string \<Rightarrow> string" where
  "toLowerCase s = map toLowerChar s"

text \<open>\<open>s.split(',')\<close>: the pieces between the commas; one piece when there is no comma.\<close>

fun split_comma :: "string \<Rightarrow> string list" where
  "split_comma [] = [[]]"
| "split_comma (c # cs) =
     (if c = CHR '','' then [] # split_comma cs
      else (case split_comma cs of
              [] \<Rightarrow> [[c]]
            | w # ws \<Rightarrow> (c # w) # ws))"

text \<open>\<open>xs.join(', ')\<close>.\<close>

fun join_comma :: "string list \<Rightarrow> string" where
  "join_comma [] = []"
| "join_comma [x] = x"
| "join_comma (x # y # zs) = x @ '', '' @ join_comma (y # zs)"

text \<open>The decimal digits of a number, as a template literal prints \<open>Date.now()\<close>.\<close>

fun show_nat :: "nat \<Rightarrow> string" where
  "show_nat n =
     (if n < 10 then [''0123456789'' ! n]
      else show_nat (n div 10) @ [''0123456789'' ! (n mod 10)])"

declare show_nat.simps [simp del]

section \<open>Objects\<close>

text \<open>
  The function-valued properties of \<open>Object.prototype\<close> and of \<open>Array.prototype\<close>, as
  ECMAScript 2023 lists them (with its annex for browsers): the key, and the name of the
  function found under it. \<open>Object.prototype\<close> has one more property, the accessor
  \<open>__proto__\<close>.
\<close>

definition ObjectPrototype_functions :: "(string \<times> string) list" where
  "ObjectPrototype_functions =
     (''constructor'', ''Object'') #
     map (\<lambda>k. (k, k))
       [''__defineGetter__'', ''__defineSetter__'', ''hasOwnProperty'', ''__lookupGetter__'',
        ''__lookupSetter__'', ''isPrototypeOf'', ''propertyIsEnumerable'', ''toString'',
        ''valueOf'', ''toLocaleString'']"

definition ArrayPrototype_functions :: "(string \<times> string) list" where
  "ArrayPrototype_functions =
     (''constructor'', ''Array'') #
     map (\<lambda>k. (k, k))
       [''at'', ''concat'', ''copyWithin'', ''entries'', ''every'', ''fill'', ''filter'',
        ''find'', ''findIndex'', ''findLast'', ''findLastIndex'', ''flat'', ''flatMap'',
        ''forEach'', ''includes'', ''indexOf'', ''join'', ''keys'', ''lastIndexOf'', ''map'',
        ''pop'', ''push'', ''reduce'', ''reduceRight'', ''reverse'', ''shift'', ''slice'',
        ''some'', ''sort'', ''splice'', ''toLocaleString'', ''toReversed'', ''toSorted'',
        ''toSpliced'', ''toString'', ''unshift'', ''values'', ''with'']"


text \<open>
  \<open>obj[k]\<close> where \<open>obj\<close> has no own property \<open>k\<close> and the search has reached
  \<open>Object.prototype\<close>: the getter of \<open>__proto__\<close> returns the prototype of \<open>obj\<close>.
\<close>

definition getFromObjectPrototype :: "jsobject \<Rightarrow> string \<Rightarrow> jsvalue" where
  "getFromObjectPrototype obj k =
     (if k = ''__proto__'' then
        (case prototype obj of
           ObjectPrototype \<Rightarrow> ObjectPrototypeObject
         | ArrayObject vs \<Rightarrow> Answer (Arr vs))
      else (case map_of ObjectPrototype_functions k of
              Some name \<Rightarrow> BuiltinFunction name
            | None \<Rightarrow> Undefined))"

text \<open>
  \<open>obj[k]\<close>: the own property if there is one, and otherwise what the prototype chain
  has under \<open>k\<close>. An array has its elements under their indices and its \<open>length\<close>,
  and inherits from \<open>Array.prototype\<close>, which inherits from \<open>Object.prototype\<close>.
\<close>

definition getProperty :: "jsobject \<Rightarrow> string \<Rightarrow> jsvalue" where
  "getProperty obj k =
     (case own obj k of
        Some a \<Rightarrow> Answer a
      | None \<Rightarrow>
          (case prototype obj of
             ObjectPrototype \<Rightarrow> getFromObjectPrototype obj k
           | ArrayObject vs \<Rightarrow>
               (case map_of (zip (map show_nat [0..<length vs]) vs) k of
                  Some v \<Rightarrow> Answer (Str v)
                | None \<Rightarrow>
                    if k = ''length'' then Number (length vs)
                    else (case map_of ArrayPrototype_functions k of
                            Some name \<Rightarrow> BuiltinFunction name
                          | None \<Rightarrow> getFromObjectPrototype obj k))))"

text \<open>
  \<open>obj[k] = v\<close>. Every inherited data property is writable, so the assignment makes an
  own property, except for the key \<open>__proto__\<close>: there it calls the setter of
  \<open>Object.prototype\<close>, which makes an array the new prototype and ignores a string.
\<close>

definition setProperty :: "jsobject \<Rightarrow> string \<Rightarrow> answer \<Rightarrow> jsobject" where
  "setProperty obj k v =
     (if k = ''__proto__'' then
        (case v of
           Str x \<Rightarrow> obj
         | Arr vs \<Rightarrow> obj\<lparr>prototype := ArrayObject vs\<rparr>)
      else obj\<lparr>own := (own obj)(k \<mapsto> v)\<rparr>)"

text \<open>The object literal \<open>{}\<close>.\<close>

definition emptyObject :: jsobject where
  "emptyObject = \<lparr>own = Map.empty, prototype = ObjectPrototype\<rparr>"

text \<open>What \<open>JSON.stringify\<close> keeps of a response.\<close>

definition stringifyResponse :: "FormResponse \<Rightarrow> string \<times> (string \<rightharpoonup> answer)" where
  "stringifyResponse r = (formId r, own (responses r))"

section \<open>Queries on the page\<close>

text \<open>\<open>document.querySelector('#' + i)\<close>: only text inputs are given an id.\<close>

fun querySelector_id :: "control list \<Rightarrow> string \<Rightarrow> control option" where
  "querySelector_id [] i = None"
| "querySelector_id (TextInput j v e # cs) i =
     (if j = i then Some (TextInput j v e) else querySelector_id cs i)"
| "querySelector_id (c # cs) i = querySelector_id cs i"

text \<open>\<open>input.value\<close> of a control.\<close>

fun value_of :: "control \<Rightarrow> string" where
  "value_of (TextInput j v e) = v"
| "value_of (RadioInput n v b) = v"
| "value_of (CheckboxInput n v b) = v"

text \<open>
  \<open>document.querySelectorAll('input[name="n"]:checked')\<close>, in document order;
  \<open>querySelector\<close> with the same selector is its first element.
\<close>

fun querySelectorAll_checked :: "control list \<Rightarrow> string \<Rightarrow> control list" where
  "querySelectorAll_checked [] n = []"
| "querySelectorAll_checked (RadioInput m v b # cs) n =
     (if m = n \<and> b then RadioInput m v b # querySelectorAll_checked cs n
      else querySelectorAll_checked cs n)"
| "querySelectorAll_checked (CheckboxInput m v b # cs) n =
     (if m = n \<and> b then CheckboxInput m v b # querySelectorAll_checked cs n
      else querySelectorAll_checked cs n)"
| "querySelectorAll_checked (c # cs) n = querySelectorAll_checked cs n"

definition querySelector_checked :: "control list \<Rightarrow> string \<Rightarrow> control option" where
  "querySelector_checked cs n =
     (case querySelectorAll_checked cs n of [] \<Rightarrow> None | c # _ \<Rightarrow> Some c)"

text \<open>
  \<open>classList.add('error')\<close> and \<open>classList.remove('error')\<close> on the element that
  \<open>querySelector('#' + i)\<close> returned: the first text input with that id.
\<close>

fun classList_set :: "control list \<Rightarrow> string \<Rightarrow> bool \<Rightarrow> control list" where
  "classList_set [] i b = []"
| "classList_set (TextInput j v e # cs) i b =
     (if j = i then TextInput j v b # cs else TextInput j v e # classList_set cs i b)"
| "classList_set (c # cs) i b = c # classList_set cs i b"

section \<open>Rendering\<close>

fun renderField :: "FormField \<Rightarrow> control list" where
  "renderField f =
     (if type f = ''text'' then [TextInput (id' f) [] False]
      else if type f = ''radio'' then
        (case options f of None \<Rightarrow> [] | Some os \<Rightarrow> map (\<lambda>opt. RadioInput (id' f) opt False) os)
      else if type f = ''checkbox'' then
        (case options f of None \<Rightarrow> [] | Some os \<Rightarrow> map (\<lambda>opt. CheckboxInput (id' f) opt False) os)
      else [])"

definition renderForm :: "FormBuilder \<Rightarrow> FormBuilder" where
  "renderForm s = s\<lparr>form := concat (map renderField (formFields s))\<rparr>"

text \<open>
  A cell's \<open>textContent\<close>: an array is joined, a string is shown as it is, and
  \<open>undefined\<close> leaves the cell empty. Any other value is converted to a string: a number
  to its digits, a function to its source text, and \<open>Object.prototype\<close> to
  \<open>[object Object]\<close>.
\<close>

fun cellText :: "jsvalue \<Rightarrow> cell" where
  "cellText Undefined = Text []"
| "cellText (Answer (Arr vs)) = Text (join_comma vs)"
| "cellText (Answer (Str v)) = Text v"
| "cellText (Number n) = Text (show_nat n)"
| "cellText (BuiltinFunction name) = NativeCode name"
| "cellText ObjectPrototypeObject = Text ''[object Object]''"

definition responseRow :: "FormField list \<Rightarrow> FormResponse \<Rightarrow> cell list" where
  "responseRow fs r =
     Text (formId r) # map (\<lambda>f. cellText (getProperty (responses r) (label f))) fs"

definition renderResponses :: "FormBuilder \<Rightarrow> FormBuilder" where
  "renderResponses s =
     (if length (formResponses s) > 0 \<and> length (formFields s) \<noteq> 0 then
        s\<lparr>responseReview :=
            Some \<lparr>headerRow = ''Form ID'' # map label (formFields s),
                  dataRows = map (responseRow (formFields s)) (formResponses s)\<rparr>\<rparr>
      else
        s\<lparr>responseReview := None, formResponses := [], formFields := [],
          localStorage := Map.empty\<rparr>)"

section \<open>The field model\<close>

definition isValidLabel :: "FormBuilder \<Rightarrow> string \<Rightarrow> bool" where
  "isValidLabel s l =
     (if trim l = [] then False
      else \<not> list_ex (\<lambda>field. toLowerCase (label field) = toLowerCase l) (formFields s))"

definition saveForms :: "FormBuilder \<Rightarrow> FormBuilder" where
  "saveForms s = s\<lparr>localStorage := (localStorage s)(''forms'' \<mapsto> Forms (formFields s))\<rparr>"

definition addField :: "FormBuilder \<Rightarrow> FormField \<Rightarrow> FormBuilder" where
  "addField s field = renderForm (saveForms (s\<lparr>formFields := formFields s @ [field]\<rparr>))"

text \<open>
  The click handler of the add button. \<open>req\<close> is the answer of \<open>confirm\<close>, \<open>now\<close> the
  clock.
\<close>

definition addFieldButton_click :: "FormBuilder \<Rightarrow> bool \<Rightarrow> nat \<Rightarrow> FormBuilder" where
  "addFieldButton_click s req now =
     (let l = fieldLabelInput s; t = fieldTypeSelect s in
      if \<not> isValidLabel s l then
        s\<lparr>errorMessage :=
            ''Field label is invalid or already exists. Please choose a different label.'',
          errorColor := ''red''\<rparr>
      else
        let opts = (if t = ''radio'' \<or> t = ''checkbox''
                    then Some (map trim (split_comma (fieldOptionsInput s))) else None);
            field = \<lparr>id' = t @ ''-'' @ show_nat now, type = t, label = l, options = opts,
                     required = Some req\<rparr>
        in (addField s field)\<lparr>fieldLabelInput := [], fieldOptionsInput := [],
                               errorMessage := []\<rparr>)"

text \<open>
  \<open>find\<close> returns the first field with the id, and the assignment to \<open>field.label\<close>
  changes that element of the array.
\<close>

fun setLabel :: "FormField list \<Rightarrow> string \<Rightarrow> string \<Rightarrow> FormField list" where
  "setLabel [] i l = []"
| "setLabel (f # fs) i l = (if id' f = i then f\<lparr>label := l\<rparr> # fs else f # setLabel fs i l)"

definition editField :: "FormBuilder \<Rightarrow> string \<Rightarrow> string option \<Rightarrow> FormBuilder" where
  "editField s i answer =
     (case find (\<lambda>field. id' field = i) (formFields s) of
        None \<Rightarrow> s
      | Some field \<Rightarrow>
          (case answer of
             None \<Rightarrow> s
           | Some newLabel \<Rightarrow>
               renderResponses (renderForm (saveForms
                 (s\<lparr>formFields := setLabel (formFields s) i newLabel\<rparr>)))))"

definition deleteField :: "FormBuilder \<Rightarrow> string \<Rightarrow> FormBuilder" where
  "deleteField s i =
     renderResponses (renderForm (saveForms
       (s\<lparr>formFields := filter (\<lambda>field. id' field \<noteq> i) (formFields s)\<rparr>)))"

section \<open>Validation and submission\<close>

text \<open>
  \<open>input.classList.add('error')\<close> and \<open>input.classList.remove('error')\<close>, where
  \<open>input\<close> is what \<open>querySelector('#' + i)\<close> returned: reading a property of \<open>null\<close>
  raises a \<open>TypeError\<close>.
\<close>

definition classList_add :: "control list \<Rightarrow> control option \<Rightarrow> string \<Rightarrow> error + control list" where
  "classList_add page input i =
     (case input of None \<Rightarrow> Inl TypeError | Some c \<Rightarrow> Inr (classList_set page i True))"

definition classList_remove :: "control list \<Rightarrow> control option \<Rightarrow> string \<Rightarrow> error + control list" where
  "classList_remove page input i =
     (case input of None \<Rightarrow> Inl TypeError | Some c \<Rightarrow> Inr (classList_set page i False))"

text \<open>
  The body of the loop of \<open>validateForm\<close> for one field, as the TypeScript source has it.
  It returns the page and whether the field passed; \<open>valid\<close> becomes false when it did
  not.
\<close>

definition validateField :: "control list \<Rightarrow> FormField \<Rightarrow> error + (control list \<times> bool)" where
  "validateField page field =
     (let input = querySelector_id page (id' field) in
      if required field = Some True then
        (if type field = ''text'' \<and> input = None then Inl TypeError
         else if type field = ''text'' \<and> map_option value_of input = Some [] then
           map_sum id (\<lambda>d. (d, False)) (classList_add page input (id' field))
         else if type field = ''radio'' \<and> querySelector_checked page (id' field) = None then
           map_sum id (\<lambda>d. (d, False)) (classList_add page input (id' field))
         else if type field = ''checkbox'' \<and> querySelector_checked page (id' field) = None then
           map_sum id (\<lambda>d. (d, False)) (classList_add page input (id' field))
         else map_sum id (\<lambda>d. (d, True)) (classList_remove page input (id' field)))
      else map_sum id (\<lambda>d. (d, True)) (classList_remove page input (id' field)))"

text \<open>
  The loop. An exception ends it: the marks made so far stay on the page, and nothing is
  returned.
\<close>

fun validateFields ::
  "(control list \<Rightarrow> FormField \<Rightarrow> error + (control list \<times> bool)) \<Rightarrow>
   FormField list \<Rightarrow> control list \<Rightarrow> bool \<Rightarrow> control list \<times> (error + bool)" where
  "validateFields step [] page valid = (page, Inr valid)"
| "validateFields step (field # rest) page valid =
     (case step page field of
        Inl e \<Rightarrow> (page, Inl e)
      | Inr (page', ok) \<Rightarrow> validateFields step rest page' (valid \<and> ok))"

definition validateForm :: "FormBuilder \<Rightarrow> FormBuilder \<times> (error + bool)" where
  "validateForm s =
     (case validateFields validateField (formFields s) (form s) True of
        (page, r) \<Rightarrow> (s\<lparr>form := page\<rparr>, r))"

text \<open>
  \<open>validateForm\<close> as the compiled \<open>script.js\<close> has it: the class is removed under
  the guard \<open>if (input && input.classList)\<close>, and added without a guard.
\<close>

definition classList_remove_js :: "control list \<Rightarrow> control option \<Rightarrow> string \<Rightarrow> error + control list" where
  "classList_remove_js page input i =
     (case input of None \<Rightarrow> Inr page | Some c \<Rightarrow> Inr (classList_set page i False))"

definition validateField_js :: "control list \<Rightarrow> FormField \<Rightarrow> error + (control list \<times> bool)" where
  "validateField_js page field =
     (let input = querySelector_id page (id' field) in
      if required field = Some True then
        (if type field = ''text'' \<and> input = None then Inl TypeError
         else if type field = ''text'' \<and> map_option value_of input = Some [] then
           map_sum id (\<lambda>d. (d, False)) (classList_add page input (id' field))
         else if type field = ''radio'' \<and> querySelector_checked page (id' field) = None then
           map_sum id (\<lambda>d. (d, False)) (classList_add page input (id' field))
         else if type field = ''checkbox'' \<and> querySelector_checked page (id' field) = None then
           map_sum id (\<lambda>d. (d, False)) (classList_add page input (id' field))
         else map_sum id (\<lambda>d. (d, True)) (classList_remove_js page input (id' field)))
      else map_sum id (\<lambda>d. (d, True)) (classList_remove_js page input (id' field)))"

definition validateForm_js :: "FormBuilder \<Rightarrow> FormBuilder \<times> (error + bool)" where
  "validateForm_js s =
     (case validateFields validateField_js (formFields s) (form s) True of
        (page, r) \<Rightarrow> (s\<lparr>form := page\<rparr>, r))"

text \<open>
  The loop of \<open>submitForm\<close>, which fills the local object \<open>responses\<close>. Only the text
  branch reads a property of \<open>input\<close>.
\<close>

fun collectResponses ::
  "control list \<Rightarrow> FormField list \<Rightarrow> jsobject \<Rightarrow> error + jsobject" where
  "collectResponses page [] r = Inr r"
| "collectResponses page (field # rest) r =
     (if type field = ''text'' then
        (case querySelector_id page (id' field) of
           None \<Rightarrow> Inl TypeError
         | Some input \<Rightarrow>
             collectResponses page rest (setProperty r (label field) (Str (value_of input))))
      else if type field = ''radio'' then
        (case querySelector_checked page (id' field) of
           None \<Rightarrow> collectResponses page rest r
         | Some selectedRadio \<Rightarrow>
             collectResponses page rest
               (setProperty r (label field) (Str (value_of selectedRadio))))
      else if type field = ''checkbox'' then
        collectResponses page rest
          (setProperty r (label field)
             (Arr (map value_of (querySelectorAll_checked page (id' field)))))
      else collectResponses page rest r)"

definition submitForm :: "FormBuilder \<Rightarrow> nat \<Rightarrow> FormBuilder \<times> (error + unit)" where
  "submitForm s now =
     (case collectResponses (form s) (formFields s) emptyObject of
        Inl e \<Rightarrow> (s, Inl e)
      | Inr r \<Rightarrow>
          (let formResponse = \<lparr>formId = show_nat now, responses = r\<rparr>;
               s1 = s\<lparr>formResponses := formResponses s @ [formResponse]\<rparr>;
               s2 = s1\<lparr>localStorage :=
                        (localStorage s1)(''formResponses'' \<mapsto>
                           Responses (map stringifyResponse (formResponses s1)))\<rparr>
           in (renderResponses s2, Inr ())))"

text \<open>The click handler of the submit button.\<close>

definition submitFormButton_click :: "FormBuilder \<Rightarrow> nat \<Rightarrow> FormBuilder \<times> (error + unit)" where
  "submitFormButton_click s now =
     (case validateForm s of
        (s', Inl e) \<Rightarrow> (s', Inl e)
      | (s', Inr valid) \<Rightarrow> (if valid then submitForm s' now else (s', Inr ())))"

section \<open>Sample data\<close>

text \<open>Fields, responses and sessions on which the theorems below are run.\<close>

definition nameField :: FormField where
  "nameField = \<lparr>id' = ''text-1'', type = ''text'', label = ''Name'', options = None,
                 required = Some True\<rparr>"

definition cityField :: FormField where
  "cityField = \<lparr>id' = ''text-2'', type = ''text'', label = ''City'', options = None,
                 required = Some False\<rparr>"



definition aliceResponse :: FormResponse where
  "aliceResponse =
     \<lparr>formId = ''5'',
      responses = \<lparr>own = [''Name'' \<mapsto> Str ''Alice'', ''City'' \<mapsto> Str ''Paris''],
                   prototype = ObjectPrototype\<rparr>\<rparr>"

text \<open>A session with nothing in it, and the add form filled in for a text field.\<close>

definition emptySession :: FormBuilder where
  "emptySession = \<lparr>formFields = [], currentFormId = [], formResponses = [],
                    localStorage = Map.empty, form = [], responseReview = None,
                    fieldLabelInput = ''Age'', fieldTypeSelect = ''text'',
                    fieldOptionsInput = [], errorMessage = [], errorColor = []\<rparr>"

text \<open>Two fields and no response yet: what two successful adds leave behind.\<close>

definition fieldsOnly :: FormBuilder where
  "fieldsOnly = emptySession\<lparr>formFields := [nameField, cityField],
                   localStorage := [''forms'' \<mapsto> Forms [nameField, cityField]],
                   form := [TextInput ''text-1'' [] False, TextInput ''text-2'' [] False]\<rparr>"

text \<open>The same two fields after one submission.\<close>

definition answered :: FormBuilder where
  "answered = emptySession\<lparr>formFields := [nameField, cityField],
                 formResponses := [aliceResponse],
                 localStorage := [''forms'' \<mapsto> Forms [nameField, cityField],
                                  ''formResponses'' \<mapsto>
                                    Responses [stringifyResponse aliceResponse]],
                 form := [TextInput ''text-1'' ''Alice'' False,
                          TextInput ''text-2'' ''Paris'' False]\<rparr>"



text \<open>
  A text field and a checkbox field whose label is the key \<open>__proto__\<close>, with a name
  typed in and \<open>A\<close> ticked.
\<close>

definition protoField :: FormField where
  "protoField = \<lparr>id' = ''checkbox-6'', type = ''checkbox'', label = ''__proto__'',
                  options = Some [''A'', ''B''], required = Some False\<rparr>"

definition protoSession :: FormBuilder where
  "protoSession = emptySession\<lparr>formFields := [nameField, protoField],
                     localStorage := [''forms'' \<mapsto> Forms [nameField, protoField]],
                     form := [TextInput ''text-1'' ''Alice'' False,
                              CheckboxInput ''checkbox-6'' ''A'' True,
                              CheckboxInput ''checkbox-6'' ''B'' False]\<rparr>"

text \<open>The add form filled in for a radio field \<open>Color\<close> with the options \<open>Red,Blue\<close>.\<close>

definition radioAddForm :: FormBuilder where
  "radioAddForm = emptySession\<lparr>fieldLabelInput := ''Color'', fieldTypeSelect := ''radio'',
                     fieldOptionsInput := ''Red,Blue''\<rparr>"

section \<open>The render pass of the response table\<close>

lemma renderResponses_empty:
  "formFields s = [] \<or> formResponses s = [] \<Longrightarrow>
   renderResponses s =
     s\<lparr>responseReview := None, formResponses := [], formFields := [],
       localStorage := Map.empty\<rparr>"
  by (auto simp: renderResponses_def)

lemma renderResponses_nonempty:
  "formFields s \<noteq> [] \<Longrightarrow> formResponses s \<noteq> [] \<Longrightarrow>
   renderResponses s =
     s\<lparr>responseReview :=
         Some \<lparr>headerRow = ''Form ID'' # map label (formFields s),
               dataRows = map (responseRow (formFields s)) (formResponses s)\<rparr>\<rparr>"
  by (simp add: renderResponses_def)

text \<open>
  Claim C1. When the field collection or the response collection is empty, the render
  pass of the response table empties both collections and erases the whole store, and
  shows no table. When both are non-empty, it changes neither collection nor the store.
\<close>

theorem renderResponses_teardown:
  "(formFields s = [] \<or> formResponses s = [] \<longrightarrow>
      formFields (renderResponses s) = [] \<and>
      formResponses (renderResponses s) = [] \<and>
      localStorage (renderResponses s) = Map.empty \<and>
      responseReview (renderResponses s) = None) \<and>
   (formFields s \<noteq> [] \<and> formResponses s \<noteq> [] \<longrightarrow>
      formFields (renderResponses s) = formFields s \<and>
      formResponses (renderResponses s) = formResponses s \<and>
      localStorage (renderResponses s) = localStorage s)"
  by (simp add: renderResponses_def)

theorem renderResponses_teardown_witness:
  "formFields fieldsOnly = [nameField, cityField] \<and>
   formResponses fieldsOnly = [] \<and>
   localStorage fieldsOnly ''forms'' = Some (Forms [nameField, cityField]) \<and>
   formFields (renderResponses fieldsOnly) = [] \<and>
   formResponses (renderResponses fieldsOnly) = [] \<and>
   localStorage (renderResponses fieldsOnly) = Map.empty \<and>
   formFields (renderResponses answered) = [nameField, cityField] \<and>
   formResponses (renderResponses answered) = [aliceResponse] \<and>
   localStorage (renderResponses answered) = localStorage answered"
  using renderResponses_teardown [of fieldsOnly] renderResponses_teardown [of answered]
  by (simp add: fieldsOnly_def answered_def emptySession_def)

section \<open>Labels\<close>

lemma trim_empty: "trim [] = []"
  by (simp add: trim_def)

lemma trim_blank: "trim ''  '' = []"
  by (simp add: trim_def isWhiteSpace_def)

text \<open>
  Claim C7. \<open>isValidLabel\<close> holds exactly when the trimmed candidate is non-empty and no
  field's label equals the candidate after both are put in lower case. So it fails for
  the empty string, for two blanks, and for a candidate that differs from an existing
  label in letter case only.
\<close>

theorem isValidLabel_iff:
  "(isValidLabel s l \<longleftrightarrow>
      trim l \<noteq> [] \<and> (\<forall>f \<in> set (formFields s). toLowerCase (label f) \<noteq> toLowerCase l)) \<and>
   \<not> isValidLabel s [] \<and>
   \<not> isValidLabel s ''  '' \<and>
   (\<forall>f \<in> set (formFields s). toLowerCase (label f) = toLowerCase l \<longrightarrow> \<not> isValidLabel s l)"
  by (auto simp: isValidLabel_def list_ex_iff trim_empty trim_blank)

theorem isValidLabel_iff_witness:
  "\<not> isValidLabel fieldsOnly ''nAME'' \<and> isValidLabel fieldsOnly ''Age'' \<and>
   \<not> isValidLabel fieldsOnly ''  '' \<and> nameField \<in> set (formFields fieldsOnly) \<and>
   toLowerCase (label nameField) = toLowerCase ''nAME'' \<and> trim ''Age'' \<noteq> []"
  using isValidLabel_iff [of fieldsOnly "''nAME''"] isValidLabel_iff [of fieldsOnly "''Age''"]
  by (simp add: fieldsOnly_def emptySession_def nameField_def cityField_def toLowerCase_def
      toLowerChar_def trim_def isWhiteSpace_def)

section \<open>Adding a field\<close>

text \<open>
  Claim C8. An add whose label is empty after trimming, or equals an existing label up to
  letter case, is rejected: the handler only writes the error message (in red) and
  returns. The fields, the responses and the store are as they were.
\<close>

theorem addField_rejected:
  assumes "trim (fieldLabelInput s) = [] \<or>
           (\<exists>f \<in> set (formFields s). toLowerCase (label f) = toLowerCase (fieldLabelInput s))"
  shows "addFieldButton_click s req now =
           s\<lparr>errorMessage :=
               ''Field label is invalid or already exists. Please choose a different label.'',
             errorColor := ''red''\<rparr> \<and>
         formFields (addFieldButton_click s req now) = formFields s \<and>
         formResponses (addFieldButton_click s req now) = formResponses s \<and>
         localStorage (addFieldButton_click s req now) = localStorage s \<and>
         errorMessage (addFieldButton_click s req now) \<noteq> []"
proof -
  from assms have "\<not> isValidLabel s (fieldLabelInput s)"
    by (auto simp: isValidLabel_def list_ex_iff)
  then have "addFieldButton_click s req now =
           s\<lparr>errorMessage :=
               ''Field label is invalid or already exists. Please choose a different label.'',
             errorColor := ''red''\<rparr>"
    by (simp add: addFieldButton_click_def Let_def)
  then show ?thesis by simp
qed

theorem addField_rejected_witness:
  "toLowerCase (label nameField) =
     toLowerCase (fieldLabelInput (fieldsOnly\<lparr>fieldLabelInput := ''NAME''\<rparr>)) \<and>
   formFields (addFieldButton_click (fieldsOnly\<lparr>fieldLabelInput := ''NAME''\<rparr>) True 9)
     = [nameField, cityField] \<and>
   formResponses (addFieldButton_click (fieldsOnly\<lparr>fieldLabelInput := ''NAME''\<rparr>) True 9) = [] \<and>
   errorColor (addFieldButton_click (fieldsOnly\<lparr>fieldLabelInput := ''NAME''\<rparr>) True 9) = ''red''"
proof -
  have l: "toLowerCase (label nameField) =
           toLowerCase (fieldLabelInput (fieldsOnly\<lparr>fieldLabelInput := ''NAME''\<rparr>))"
    by (simp add: nameField_def toLowerCase_def toLowerChar_def)
  have "nameField \<in> set (formFields (fieldsOnly\<lparr>fieldLabelInput := ''NAME''\<rparr>))"
    by (simp add: fieldsOnly_def)
  with l have "trim (fieldLabelInput (fieldsOnly\<lparr>fieldLabelInput := ''NAME''\<rparr>)) = [] \<or>
      (\<exists>f \<in> set (formFields (fieldsOnly\<lparr>fieldLabelInput := ''NAME''\<rparr>)).
         toLowerCase (label f) =
         toLowerCase (fieldLabelInput (fieldsOnly\<lparr>fieldLabelInput := ''NAME''\<rparr>)))"
    by blast
  from addField_rejected [OF this, of True 9] l show ?thesis
    by (simp add: fieldsOnly_def emptySession_def)
qed

lemma split_comma_nonempty: "split_comma cs \<noteq> []"
  by (induction cs) (simp_all split: list.splits)

lemma addFieldButton_click_valid:
  "isValidLabel s (fieldLabelInput s) \<Longrightarrow>
   formFields (addFieldButton_click s req now) =
     formFields s @
       [\<lparr>id' = fieldTypeSelect s @ ''-'' @ show_nat now, type = fieldTypeSelect s,
         label = fieldLabelInput s,
         options = (if fieldTypeSelect s = ''radio'' \<or> fieldTypeSelect s = ''checkbox''
                    then Some (map trim (split_comma (fieldOptionsInput s))) else None),
         required = Some req\<rparr>]"
  by (simp add: addFieldButton_click_def Let_def addField_def renderForm_def saveForms_def)

text \<open>
  Claim C10. A radio or checkbox field made by the add handler has at least one option:
  the options input is split at the commas and each piece is trimmed, and splitting
  always gives at least one piece. An empty options input gives one option, the empty
  string.
\<close>

theorem addField_options_nonempty:
  assumes "isValidLabel s (fieldLabelInput s)"
    and "fieldTypeSelect s = ''radio'' \<or> fieldTypeSelect s = ''checkbox''"
  shows "\<exists>field. formFields (addFieldButton_click s req now) = formFields s @ [field] \<and>
           type field = fieldTypeSelect s \<and>
           options field = Some (map trim (split_comma (fieldOptionsInput s))) \<and>
           options field \<noteq> Some [] \<and>
           (fieldOptionsInput s = [] \<longrightarrow> options field = Some [[]])"
proof -
  let ?f = "\<lparr>id' = fieldTypeSelect s @ ''-'' @ show_nat now, type = fieldTypeSelect s,
         label = fieldLabelInput s,
         options = Some (map trim (split_comma (fieldOptionsInput s))),
         required = Some req\<rparr>"
  have "formFields (addFieldButton_click s req now) = formFields s @ [?f]"
    using assms by (simp add: addFieldButton_click_valid)
  moreover have "options ?f \<noteq> Some []"
    by (simp add: split_comma_nonempty)
  moreover have "fieldOptionsInput s = [] \<longrightarrow> options ?f = Some [[]]"
    by (simp add: trim_empty)
  ultimately show ?thesis
    by (intro exI [of _ ?f]) simp
qed

theorem addField_options_nonempty_witness:
  "isValidLabel (emptySession\<lparr>fieldTypeSelect := ''radio''\<rparr>) ''Age'' \<and>
   map options
     (formFields (addFieldButton_click (emptySession\<lparr>fieldTypeSelect := ''radio''\<rparr>) False 7))
     = [Some [[]]]"
proof -
  have v: "isValidLabel (emptySession\<lparr>fieldTypeSelect := ''radio''\<rparr>) ''Age''"
    by (simp add: emptySession_def isValidLabel_def trim_def isWhiteSpace_def)
  have "isValidLabel (emptySession\<lparr>fieldTypeSelect := ''radio''\<rparr>)
          (fieldLabelInput (emptySession\<lparr>fieldTypeSelect := ''radio''\<rparr>))"
    using v by (simp add: emptySession_def)
  from addField_options_nonempty [OF this, of False 7]
  obtain field where
    "formFields (addFieldButton_click (emptySession\<lparr>fieldTypeSelect := ''radio''\<rparr>) False 7)
       = [field]"
    "options field = Some [[]]"
    by (auto simp: emptySession_def)
  then show ?thesis using v by simp
qed

section \<open>Deleting a field\<close>

lemma renderResponses_fields:
  "formFields (renderResponses s) =
     (if formFields s = [] \<or> formResponses s = [] then [] else formFields s)"
  by (simp add: renderResponses_def)

lemma deleteField_fields:
  "formFields (deleteField s i) =
     (if formResponses s = [] \<or> filter (\<lambda>field. id' field \<noteq> i) (formFields s) = [] then []
      else filter (\<lambda>field. id' field \<noteq> i) (formFields s))"
  by (simp add: deleteField_def renderResponses_fields renderForm_def saveForms_def)

text \<open>
  Claim C9. After \<open>deleteField\<close> with the id of a field of the collection, no field with
  that id is left, and the fields that are left are in the order they had. (They are the
  fields with another id; when there is no response, or no other field, the render pass
  that ends \<open>deleteField\<close> leaves none.)
\<close>

theorem deleteField_removes:
  assumes "i \<in> id' ` set (formFields s)"
  shows "i \<notin> id' ` set (formFields (deleteField s i)) \<and>
         subseq (formFields (deleteField s i)) (formFields s) \<and>
         formFields (deleteField s i) =
           (if formResponses s = [] \<or> filter (\<lambda>field. id' field \<noteq> i) (formFields s) = []
            then [] else filter (\<lambda>field. id' field \<noteq> i) (formFields s))"
proof -
  have a: "i \<notin> id' ` set (filter (\<lambda>field. id' field \<noteq> i) (formFields s))" by auto
  have b: "subseq (filter (\<lambda>field. id' field \<noteq> i) (formFields s)) (formFields s)" by simp
  show ?thesis using a b by (simp add: deleteField_fields)
qed

theorem deleteField_removes_witness:
  "''text-1'' \<in> id' ` set (formFields answered) \<and>
   formFields (deleteField answered ''text-1'') = [cityField] \<and>
   ''text-1'' \<notin> id' ` set (formFields (deleteField answered ''text-1''))"
  using deleteField_removes [of "''text-1''" answered]
  by (simp add: answered_def emptySession_def nameField_def cityField_def)

section \<open>Editing a field, and ids that are not in the collection\<close>

lemma find_absent: "i \<notin> id' ` set fs \<Longrightarrow> find (\<lambda>field. id' field = i) fs = None"
  by (induction fs) auto

lemma filter_absent: "i \<notin> id' ` set fs \<Longrightarrow> filter (\<lambda>field. id' field \<noteq> i) fs = fs"
  by (induction fs) auto











text \<open>
  Claim C4, as stated, fails for \<open>deleteField\<close>: it saves, renders the preview and runs
  the render pass of the response table whether or not a field had the id, and that pass
  empties the fields and the store when there is no response yet.
\<close>

theorem deleteField_unknown_id_counterexample:
  "''nope'' \<notin> id' ` set (formFields fieldsOnly) \<and>
   formFields fieldsOnly = [nameField, cityField] \<and>
   formFields (deleteField fieldsOnly ''nope'') = [] \<and>
   localStorage fieldsOnly ''forms'' = Some (Forms [nameField, cityField]) \<and>
   localStorage (deleteField fieldsOnly ''nope'') ''forms'' = None"
  by (simp add: deleteField_def fieldsOnly_def emptySession_def nameField_def cityField_def
      renderResponses_def renderForm_def saveForms_def)

text \<open>
  Claim C4, amended. For an id that no field has: \<open>editField\<close> changes nothing, whatever
  the prompt would answer. \<open>deleteField\<close> raises nothing and writes no error message;
  when both collections are non-empty it leaves the fields and the responses as they are
  and rewrites the key \<open>forms\<close> of the store with the unchanged field array; when one of
  them is empty, its render pass leaves both collections and the store empty.
\<close>

theorem lookupMiss:
  assumes "i \<notin> id' ` set (formFields s)"
  shows "editField s i answer = s \<and>
         (formFields s \<noteq> [] \<and> formResponses s \<noteq> [] \<longrightarrow>
            formFields (deleteField s i) = formFields s \<and>
            formResponses (deleteField s i) = formResponses s \<and>
            localStorage (deleteField s i)
              = (localStorage s)(''forms'' \<mapsto> Forms (formFields s))) \<and>
         (formFields s = [] \<or> formResponses s = [] \<longrightarrow>
            formFields (deleteField s i) = [] \<and>
            formResponses (deleteField s i) = [] \<and>
            localStorage (deleteField s i) = Map.empty) \<and>
         errorMessage (deleteField s i) = errorMessage s"
  using assms
  by (simp add: editField_def find_absent deleteField_def filter_absent renderResponses_def
      renderForm_def saveForms_def)

theorem lookupMiss_witness:
  "''nope'' \<notin> id' ` set (formFields answered) \<and>
   editField answered ''nope'' (Some ''X'') = answered \<and>
   formFields (deleteField answered ''nope'') = [nameField, cityField] \<and>
   formResponses (deleteField answered ''nope'') = [aliceResponse] \<and>
   localStorage (deleteField answered ''nope'') = localStorage answered \<and>
   ''nope'' \<notin> id' ` set (formFields emptySession) \<and>
   localStorage (deleteField emptySession ''nope'') = localStorage emptySession"
proof -
  have a: "''nope'' \<notin> id' ` set (formFields answered)"
    by (simp add: answered_def nameField_def cityField_def)
  have b: "''nope'' \<notin> id' ` set (formFields emptySession)"
    by (simp add: emptySession_def)
  have c: "localStorage answered
             = (localStorage answered)(''forms'' \<mapsto> Forms (formFields answered))"
    by (auto simp: answered_def)
  show ?thesis
    using a b c lookupMiss [OF a, of "Some ''X''"] lookupMiss [OF b, of None]
    by (simp add: answered_def emptySession_def)
qed

section \<open>The response table after a rename\<close>




lemma getProperty_own: "own obj k = Some a \<Longrightarrow> getProperty obj k = Answer a"
  by (simp add: getProperty_def)


text \<open>
  The cell is not blank either when the new label is the name of a member that the
  record's object inherits: the cell then shows that member.
\<close>

lemma rename_to_inherited_name:
  "responseReview (editField answered ''text-1'' (Some ''toString'')) =
     Some \<lparr>headerRow = [''Form ID'', ''toString'', ''City''],
           dataRows = [[Text ''5'', NativeCode ''toString'', Text ''Paris'']]\<rparr> \<and>
   responseReview (editField answered ''text-1'' (Some ''__proto__'')) =
     Some \<lparr>headerRow = [''Form ID'', ''__proto__'', ''City''],
           dataRows = [[Text ''5'', Text ''[object Object]'', Text ''Paris'']]\<rparr>"
  by (simp add: editField_def answered_def emptySession_def nameField_def cityField_def
      aliceResponse_def renderResponses_def renderForm_def saveForms_def responseRow_def
      getProperty_def getFromObjectPrototype_def ObjectPrototype_functions_def)



section \<open>Submitting\<close>









lemma querySelector_id_append:
  "querySelector_id (xs @ ys) i =
     (case querySelector_id xs i of None \<Rightarrow> querySelector_id ys i | Some c \<Rightarrow> Some c)"
  by (induction xs i rule: querySelector_id.induct) auto

text \<open>The page that \<open>renderForm\<close> builds has the input of every text field.\<close>

lemma renderForm_text_inputs:
  "f \<in> set fs \<Longrightarrow> type f = ''text'' \<Longrightarrow>
   querySelector_id (concat (map renderField fs)) (id' f) \<noteq> None"
  by (induction fs) (auto simp: querySelector_id_append split: option.splits)

lemma renderForm_has_text_inputs:
  "\<forall>f \<in> set (formFields s). type f = ''text'' \<longrightarrow>
     querySelector_id (form (renderForm s)) (id' f) \<noteq> None"
  by (simp add: renderForm_def renderForm_text_inputs)



text \<open>
  A field whose label is \<open>__proto__\<close> gets no key: for a checkbox field the array of
  ticked values becomes the prototype of the record's answers, and the table shows it in
  that field's column.
\<close>

lemma submit_proto_label:
  "map responses (formResponses (fst (submitForm protoSession 7))) =
     [\<lparr>own = [''Name'' \<mapsto> Str ''Alice''], prototype = ArrayObject [''A'']\<rparr>] \<and>
   map dataRows (case responseReview (fst (submitForm protoSession 7)) of
                   None \<Rightarrow> [] | Some t \<Rightarrow> [t]) =
     [[[Text ''7'', Text ''Alice'', Text ''A'']]]"
  by (simp add: submitForm_def Let_def protoSession_def emptySession_def nameField_def
      protoField_def renderResponses_def setProperty_def emptyObject_def responseRow_def
      getProperty_def getFromObjectPrototype_def ArrayPrototype_functions_def
      show_nat.simps [of 7] show_nat.simps [of 0] upt_rec [of 0])



section \<open>Validation\<close>

text \<open>
  Claim C6. The claim is what \<open>validateForm\<close> sets out to do, and the code misses it for
  radio and checkbox fields. \<open>renderForm\<close> gives their inputs a \<open>name\<close> and no \<open>id\<close>,
  so \<open>document.querySelector('#' + field.id)\<close> is \<open>null\<close> for them, and marking the
  error reads \<open>input.classList\<close>. After a required radio field is added and nothing is
  selected, \<open>validateForm\<close> raises a \<open>TypeError\<close> where the claim has it return false,
  in the TypeScript source and in the compiled script alike. The click handler ends with
  the exception, so nothing is submitted.
\<close>

theorem validateForm_required_radio_throws:
  "formFields (addFieldButton_click radioAddForm True 3) =
     [\<lparr>id' = ''radio-3'', type = ''radio'', label = ''Color'',
       options = Some [''Red'', ''Blue''], required = Some True\<rparr>] \<and>
   form (addFieldButton_click radioAddForm True 3) =
     [RadioInput ''radio-3'' ''Red'' False, RadioInput ''radio-3'' ''Blue'' False] \<and>
   snd (validateForm (addFieldButton_click radioAddForm True 3)) = Inl TypeError \<and>
   snd (validateForm_js (addFieldButton_click radioAddForm True 3)) = Inl TypeError \<and>
   formResponses (fst (submitFormButton_click (addFieldButton_click radioAddForm True 3) 4)) = []"
  by (simp add: addFieldButton_click_def Let_def radioAddForm_def emptySession_def
      isValidLabel_def trim_def isWhiteSpace_def addField_def saveForms_def renderForm_def
      show_nat.simps [of 3] validateForm_def validateForm_js_def validateField_def
      validateField_js_def querySelector_checked_def classList_add_def
      submitFormButton_click_def)

text \<open>
  In the TypeScript source the class is also removed without a guard, so a radio field
  that is not required raises as well; the compiled script returns true there.
\<close>

lemma validateForm_optional_radio_throws:
  "snd (validateForm (addFieldButton_click radioAddForm False 3)) = Inl TypeError \<and>
   snd (validateForm_js (addFieldButton_click radioAddForm False 3)) = Inr True"
  by (simp add: addFieldButton_click_def Let_def radioAddForm_def emptySession_def
      isValidLabel_def trim_def isWhiteSpace_def addField_def saveForms_def renderForm_def
      show_nat.simps [of 3] validateForm_def validateForm_js_def validateField_def
      validateField_js_def querySelector_checked_def classList_remove_def
      classList_remove_js_def)

text \<open>
  On a form of text fields only, whose inputs are on the page, \<open>validateForm\<close> returns
  what the claim says: the conjunction, over the required fields, of a non-empty value.
\<close>

lemma value_classList_set:
  "map_option value_of (querySelector_id (classList_set page i b) j) =
   map_option value_of (querySelector_id page j)"
  by (induction page i b rule: classList_set.induct) auto

lemma present_classList_set:
  "querySelector_id (classList_set page i b) j = None \<longleftrightarrow> querySelector_id page j = None"
  using value_classList_set [of page i b j] by (metis map_option_is_None)

lemma validateField_text:
  assumes "type f = ''text''" and "querySelector_id page (id' f) \<noteq> None"
  shows "validateField page f =
           Inr (classList_set page (id' f)
                  (required f = Some True \<and>
                   map_option value_of (querySelector_id page (id' f)) = Some []),
                \<not> (required f = Some True \<and>
                   map_option value_of (querySelector_id page (id' f)) = Some []))"
  using assms
  by (auto simp: validateField_def Let_def classList_add_def classList_remove_def)

lemma validateFields_text:
  "(\<forall>f \<in> set fs. type f = ''text'' \<and> querySelector_id page (id' f) \<noteq> None) \<Longrightarrow>
   snd (validateFields validateField fs page valid) =
     Inr (valid \<and> (\<forall>f \<in> set fs. required f = Some True \<longrightarrow>
                      map_option value_of (querySelector_id page (id' f)) \<noteq> Some []))"
proof (induction fs arbitrary: page valid)
  case Nil
  then show ?case by simp
next
  case (Cons f fs)
  let ?bad = "required f = Some True \<and>
              map_option value_of (querySelector_id page (id' f)) = Some []"
  let ?page = "classList_set page (id' f) ?bad"
  from Cons.prems have f: "type f = ''text''" "querySelector_id page (id' f) \<noteq> None"
    by simp_all
  have step: "validateField page f = Inr (?page, \<not> ?bad)"
    by (rule validateField_text [OF f])
  from Cons.prems
  have "\<forall>g \<in> set fs. type g = ''text'' \<and> querySelector_id ?page (id' g) \<noteq> None"
    by (simp add: present_classList_set)
  from Cons.IH [OF this, of "valid \<and> \<not> ?bad"] step
  show ?case
    by (auto simp: value_classList_set)
qed

lemma validateForm_text_only:
  "(\<forall>f \<in> set (formFields s). type f = ''text'' \<and> querySelector_id (form s) (id' f) \<noteq> None) \<Longrightarrow>
   snd (validateForm s) =
     Inr (\<forall>f \<in> set (formFields s). required f = Some True \<longrightarrow>
            map_option value_of (querySelector_id (form s) (id' f)) \<noteq> Some [])"
  using validateFields_text [of "formFields s" "form s" True]
  by (simp add: validateForm_def case_prod_beta)

text \<open>
  Validation changes nothing but the page, and the click handler submits only when it
  returned true.
\<close>

lemma validateForm_state:
  "formFields (fst (validateForm s)) = formFields s \<and>
   formResponses (fst (validateForm s)) = formResponses s \<and>
   localStorage (fst (validateForm s)) = localStorage s"
  by (simp add: validateForm_def case_prod_beta)

lemma submit_blocked:
  "snd (validateForm s) \<noteq> Inr True \<Longrightarrow>
   formFields (fst (submitFormButton_click s now)) = formFields s \<and>
   formResponses (fst (submitFormButton_click s now)) = formResponses s \<and>
   localStorage (fst (submitFormButton_click s now)) = localStorage s"
  using validateForm_state [of s]
  by (auto simp: submitFormButton_click_def split: prod.splits sum.splits)

end
